theory Spec2Isabelle
  imports Complex_Main
begin

section \<open>Glucose analytics of the LibreLink MCP server\<close>

text \<open>
  A shallow embedding of \<^verbatim>\<open>src/glucose-analytics.ts\<close> (class \<^verbatim>\<open>GlucoseAnalytics\<close>) and of
  the types of \<^verbatim>\<open>src/types.ts\<close> it uses.

  Numbers.  A TypeScript \<^verbatim>\<open>number\<close> is a binary64 float.  Here the value of a reading and
  the bounds of the target range are finite and are modelled as \<^typ>\<open>real\<close>: arithmetic is
  exact, the rounding error and the overflow of binary64 are not modelled.  Every division
  of the source is by a literal or by a count that is positive where the division is
  reached, with one exception:
  \<^verbatim>\<open>standardDeviation / average\<close>, whose divisor is zero when the readings sum to zero.
  That quotient, and everything computed from it, has the type \<open>number\<close> below, which adds
  the three non-finite values of a JavaScript number to the reals.
\<close>

subsection \<open>JavaScript numbers and \<^verbatim>\<open>Math.round\<close>\<close>

datatype number = Finite real | PosInfinity | NegInfinity | NaN

text \<open>\<^verbatim>\<open>a / b\<close> on finite operands (the zero of the model is \<^verbatim>\<open>+0\<close>).\<close>

definition js_div :: "real \<Rightarrow> real \<Rightarrow> number" where
  "js_div a b =
     (if b \<noteq> 0 then Finite (a / b)
      else if a = 0 then NaN
      else if a > 0 then PosInfinity
      else NegInfinity)"

text \<open>\<^verbatim>\<open>x * c\<close> and \<^verbatim>\<open>x / c\<close> for a finite \<^verbatim>\<open>c\<close>.\<close>

fun num_times :: "number \<Rightarrow> real \<Rightarrow> number" where
  "num_times (Finite x) c = Finite (x * c)"
| "num_times PosInfinity c =
     (if c = 0 then NaN else if c > 0 then PosInfinity else NegInfinity)"
| "num_times NegInfinity c =
     (if c = 0 then NaN else if c > 0 then NegInfinity else PosInfinity)"
| "num_times NaN c = NaN"

fun num_divide :: "number \<Rightarrow> real \<Rightarrow> number" where
  "num_divide (Finite x) c = js_div x c"
| "num_divide PosInfinity c = (if c \<ge> 0 then PosInfinity else NegInfinity)"
| "num_divide NegInfinity c = (if c \<ge> 0 then NegInfinity else PosInfinity)"
| "num_divide NaN c = NaN"

text \<open>\<^verbatim>\<open>x <= c\<close> for a finite \<^verbatim>\<open>c\<close>: a comparison with \<^verbatim>\<open>NaN\<close> is false.\<close>

fun num_le :: "number \<Rightarrow> real \<Rightarrow> bool" where
  "num_le (Finite x) c = (x \<le> c)"
| "num_le PosInfinity c = False"
| "num_le NegInfinity c = True"
| "num_le NaN c = False"

text \<open>
  \<^verbatim>\<open>Math.round(x)\<close> is the integer nearest to \<^verbatim>\<open>x\<close>, a tie going up:
  \<open>\<lfloor>x + 1/2\<rfloor>\<close>.  It returns a non-finite argument as it is.
\<close>

definition Math_round :: "real \<Rightarrow> real" where
  "Math_round x = real_of_int \<lfloor>x + 1 / 2\<rfloor>"

fun Math_round_num :: "number \<Rightarrow> number" where
  "Math_round_num (Finite x) = Finite (Math_round x)"
| "Math_round_num PosInfinity = PosInfinity"
| "Math_round_num NegInfinity = NegInfinity"
| "Math_round_num NaN = NaN"

subsection \<open>Data model (\<^verbatim>\<open>types.ts\<close>)\<close>

datatype TrendType =
  FLAT | FORTY_FIVE_UP | SINGLE_UP | DOUBLE_UP | FORTY_FIVE_DOWN | SINGLE_DOWN | DOUBLE_DOWN

text \<open>A valid \<^verbatim>\<open>Date\<close> is its time value: milliseconds since the epoch, UTC.\<close>

type_synonym Date = int

record GlucoseReading =
  "value" :: real
  timestamp :: Date
  trend :: TrendType
  isHigh :: bool
  isLow :: bool
  color :: string

record Credentials =
  email :: string
  password :: string

datatype Region = US | EU

record ClientSettings =
  version :: string
  region :: Region

record CacheSettings =
  enabled :: bool
  ttl_minutes :: real

record Ranges =
  target_low :: real
  target_high :: real

record LibreLinkConfig =
  credentials :: Credentials
  client :: ClientSettings
  cache :: CacheSettings
  ranges :: Ranges

record GlucoseStats =
  average :: real
  gmi :: real
  timeInRange :: real
  timeBelowRange :: real
  timeAboveRange :: real
  standardDeviation :: real
  coefficientOfVariation :: number

record TrendAnalysis =
  patterns :: "string list"
  dawnPhenomenon :: bool
  mealResponse :: real
  overnightStability :: real

text \<open>The period of \<^verbatim>\<open>analyzeTrends\<close>: \<^verbatim>\<open>'daily' | 'weekly' | 'monthly'\<close>.\<close>

datatype Period = Daily | Weekly | Monthly

text \<open>\<^verbatim>\<open>throw new Error(message)\<close>.\<close>

datatype error = Error string

text \<open>The class: its only field is the configuration.\<close>

record GlucoseAnalytics =
  config :: LibreLinkConfig

subsection \<open>\<^verbatim>\<open>calculateGlucoseStats\<close>\<close>

definition calculateGlucoseStats ::
  "GlucoseAnalytics \<Rightarrow> GlucoseReading list \<Rightarrow> error + GlucoseStats" where
  "calculateGlucoseStats this readings =
     (if length readings = 0 then Inl (Error ''No glucose readings provided for analysis'')
      else
        let values = map value readings;
            total = foldl (\<lambda>sum val. sum + val) 0 values;
            average = total / real (length values);
            variance =
              foldl (\<lambda>sum val. sum + (val - average) ^ 2) 0 values / real (length values);
            standardDeviation = sqrt variance;
            coefficientOfVariation = num_times (js_div standardDeviation average) 100;
            gmi = 3.31 + (0.02392 * average);
            inRange = length (filter (\<lambda>r.
              value r \<ge> target_low (ranges (config this)) \<and>
              value r \<le> target_high (ranges (config this))) readings);
            belowRange =
              length (filter (\<lambda>r. value r < target_low (ranges (config this))) readings);
            aboveRange =
              length (filter (\<lambda>r. value r > target_high (ranges (config this))) readings);
            timeInRange = (real inRange / real (length readings)) * 100;
            timeBelowRange = (real belowRange / real (length readings)) * 100;
            timeAboveRange = (real aboveRange / real (length readings)) * 100
        in Inr \<lparr>
          average = Math_round (average * 100) / 100,
          gmi = Math_round (gmi * 100) / 100,
          timeInRange = Math_round (timeInRange * 100) / 100,
          timeBelowRange = Math_round (timeBelowRange * 100) / 100,
          timeAboveRange = Math_round (timeAboveRange * 100) / 100,
          standardDeviation = Math_round (standardDeviation * 100) / 100,
          coefficientOfVariation =
            num_divide (Math_round_num (num_times coefficientOfVariation 100)) 100
        \<rparr>)"

subsection \<open>Local hour of a timestamp\<close>

text \<open>
  \<^verbatim>\<open>Date.prototype.getHours\<close> is \<open>HourFromTime (LocalTime t)\<close>: the local time is the time
  value plus the offset of the local time zone at that instant, in milliseconds, and the
  hour is \<open>\<lfloor>t / msPerHour\<rfloor> mod 24\<close>.  The offset is the environment's; every function that
  reads an hour takes it as its first argument \<open>tza\<close>.
\<close>

definition getHours :: "(int \<Rightarrow> int) \<Rightarrow> Date \<Rightarrow> int" where
  "getHours tza t = ((t + tza t) div 3600000) mod 24"

subsection \<open>\<^verbatim>\<open>detectDawnPhenomenon\<close>\<close>

text \<open>One round of the first \<^verbatim>\<open>forEach\<close>: the reading's value is pushed on its hour's array.\<close>

definition group_reading ::
  "(int \<Rightarrow> int) \<Rightarrow> (int \<rightharpoonup> real list) \<Rightarrow> GlucoseReading \<Rightarrow> (int \<rightharpoonup> real list)" where
  "group_reading tza hourlyReadings reading =
     (let hour = getHours tza (timestamp reading);
          hourlyReadings' =
            (if hourlyReadings hour = None then hourlyReadings(hour \<mapsto> []) else hourlyReadings)
      in case hourlyReadings' hour of
           Some values \<Rightarrow> hourlyReadings'(hour \<mapsto> values @ [value reading])
         | None \<Rightarrow> hourlyReadings')"

text \<open>\<^verbatim>\<open>m.get(k) || 0\<close>: zero for a missing key and for a falsy value, which is zero itself.\<close>

definition get_or_zero :: "(int \<rightharpoonup> real) \<Rightarrow> int \<Rightarrow> real" where
  "get_or_zero m k = (case m k of None \<Rightarrow> 0 | Some a \<Rightarrow> if a = 0 then 0 else a)"

definition detectDawnPhenomenon :: "(int \<Rightarrow> int) \<Rightarrow> GlucoseReading list \<Rightarrow> bool" where
  "detectDawnPhenomenon tza readings =
     (let hourlyReadings = foldl (group_reading tza) Map.empty readings;
          hourlyAverages = (\<lambda>hour.
            map_option (\<lambda>values. foldl (\<lambda>sum val. sum + val) 0 values / real (length values))
              (hourlyReadings hour));
          dawn4AM = get_or_zero hourlyAverages 4;
          dawn6AM = get_or_zero hourlyAverages 6;
          dawn8AM = get_or_zero hourlyAverages 8
      in (dawn8AM - dawn4AM) > 20 \<or> (dawn6AM - dawn4AM) > 15)"

subsection \<open>\<^verbatim>\<open>calculateMealResponse\<close>\<close>

text \<open>
  The \<^verbatim>\<open>for\<close> loop from index \<open>i\<close> on, with the two counters; \<^verbatim>\<open>readings.length - 1\<close> is
  \<open>-1\<close> for the empty array.
\<close>

function meal_loop :: "GlucoseReading list \<Rightarrow> nat \<Rightarrow> real \<times> nat \<Rightarrow> real \<times> nat" where
  "meal_loop readings i (totalSpikes, spikeCount) =
     (if int i < int (length readings) - 1 then
        let current = value (readings ! i);
            previous = value (readings ! (i - 1));
            next = value (readings ! (i + 1))
        in if current > previous + 30 \<and> current > next + 15
           then meal_loop readings (i + 1) (totalSpikes + (current - previous), spikeCount + 1)
           else meal_loop readings (i + 1) (totalSpikes, spikeCount)
      else (totalSpikes, spikeCount))"
  by pat_completeness auto
termination
  by (relation "measure (\<lambda>(readings, i, _). length readings - i)") auto

declare meal_loop.simps [simp del]

definition calculateMealResponse :: "GlucoseReading list \<Rightarrow> real" where
  "calculateMealResponse readings =
     (case meal_loop readings 1 (0, 0) of
        (totalSpikes, spikeCount) \<Rightarrow>
          if spikeCount > 0 then totalSpikes / real spikeCount else 0)"

subsection \<open>\<^verbatim>\<open>calculateOvernightStability\<close>\<close>

definition calculateOvernightStability :: "(int \<Rightarrow> int) \<Rightarrow> GlucoseReading list \<Rightarrow> real" where
  "calculateOvernightStability tza readings =
     (let overnightReadings = filter (\<lambda>reading.
            let hour = getHours tza (timestamp reading) in hour \<ge> 23 \<or> hour \<le> 6) readings
      in if length overnightReadings < 2 then 0
         else
           let values = map value overnightReadings;
               average = foldl (\<lambda>sum val. sum + val) 0 values / real (length values);
               variance =
                 foldl (\<lambda>sum val. sum + (val - average) ^ 2) 0 values / real (length values)
           in sqrt variance)"

subsection \<open>\<^verbatim>\<open>detectHypoglycemicEpisodes\<close> and \<^verbatim>\<open>detectHyperglycemicPeriods\<close>\<close>

text \<open>One round of each \<^verbatim>\<open>forEach\<close>, on the two variables the callback updates.\<close>

definition hypo_step :: "GlucoseAnalytics \<Rightarrow> nat \<times> bool \<Rightarrow> GlucoseReading \<Rightarrow> nat \<times> bool" where
  "hypo_step this st reading =
     (case st of (episodes, inEpisode) \<Rightarrow>
        if value reading < target_low (ranges (config this)) then
          (if \<not> inEpisode then (episodes + 1, True) else (episodes, inEpisode))
        else if value reading > target_low (ranges (config this)) + 10 then (episodes, False)
        else (episodes, inEpisode))"

definition detectHypoglycemicEpisodes :: "GlucoseAnalytics \<Rightarrow> GlucoseReading list \<Rightarrow> nat" where
  "detectHypoglycemicEpisodes this readings = fst (foldl (hypo_step this) (0, False) readings)"

definition hyper_step :: "GlucoseAnalytics \<Rightarrow> nat \<times> nat \<Rightarrow> GlucoseReading \<Rightarrow> nat \<times> nat" where
  "hyper_step this st reading =
     (case st of (periods, consecutiveHigh) \<Rightarrow>
        if value reading > target_high (ranges (config this)) then (periods, consecutiveHigh + 1)
        else ((if consecutiveHigh \<ge> 6 then periods + 1 else periods), 0))"

definition detectHyperglycemicPeriods :: "GlucoseAnalytics \<Rightarrow> GlucoseReading list \<Rightarrow> nat" where
  "detectHyperglycemicPeriods this readings =
     (case foldl (hyper_step this) (0, 0) readings of
        (periods, consecutiveHigh) \<Rightarrow>
          if consecutiveHigh \<ge> 6 then periods + 1 else periods)"

subsection \<open>\<^verbatim>\<open>analyzeTrends\<close>\<close>

text \<open>The decimal digits of a count, as a template literal prints it.\<close>

fun number_toString :: "nat \<Rightarrow> string" where
  "number_toString n =
     (if n < 10 then [char_of (48 + n)]
      else number_toString (n div 10) @ [char_of (48 + n mod 10)])"

declare number_toString.simps [simp del]

definition analyzeTrends ::
  "(int \<Rightarrow> int) \<Rightarrow> GlucoseAnalytics \<Rightarrow> GlucoseReading list \<Rightarrow> Period \<Rightarrow> error + TrendAnalysis" where
  "analyzeTrends tza this readings period =
     (if length readings = 0
      then Inl (Error ''No glucose readings provided for trend analysis'')
      else
        let patterns0 = [];
            dawnPhenomenon = detectDawnPhenomenon tza readings;
            patterns1 =
              (if dawnPhenomenon
               then patterns0 @ [''Dawn phenomenon detected - glucose rises in early morning hours'']
               else patterns0);
            mealResponse = calculateMealResponse readings;
            patterns2 =
              (if mealResponse > 50
               then patterns1 @ [''High postprandial glucose response detected'']
               else if mealResponse < 20
               then patterns1 @ [''Good postprandial glucose control'']
               else patterns1);
            overnightStability = calculateOvernightStability tza readings;
            patterns3 =
              (if overnightStability < 10
               then patterns2 @ [''Excellent overnight glucose stability'']
               else if overnightStability > 30
               then patterns2 @ [''High overnight glucose variability'']
               else patterns2);
            hypoEpisodes = detectHypoglycemicEpisodes this readings;
            patterns4 =
              (if hypoEpisodes > 0
               then patterns3 @ [number_toString hypoEpisodes @ '' hypoglycemic episode(s) detected'']
               else patterns3);
            hyperPeriods = detectHyperglycemicPeriods this readings;
            patterns5 =
              (if hyperPeriods > 0
               then patterns4 @
                 [number_toString hyperPeriods @ '' extended hyperglycemic period(s) detected'']
               else patterns4)
        in Inr \<lparr>
          patterns = patterns5,
          dawnPhenomenon = dawnPhenomenon,
          mealResponse = Math_round (mealResponse * 100) / 100,
          overnightStability = Math_round (overnightStability * 100) / 100
        \<rparr>)"

subsection \<open>\<^verbatim>\<open>generateInsights\<close>\<close>

text \<open>Both calls come first; either may throw, and the trend analysis is not used after.\<close>

definition generateInsights ::
  "(int \<Rightarrow> int) \<Rightarrow> GlucoseAnalytics \<Rightarrow> GlucoseReading list \<Rightarrow> error + string list" where
  "generateInsights tza this readings =
     (case calculateGlucoseStats this readings of
        Inl e \<Rightarrow> Inl e
      | Inr stats \<Rightarrow>
         (case analyzeTrends tza this readings Weekly of
            Inl e \<Rightarrow> Inl e
          | Inr trends \<Rightarrow>
              let insights0 = [];
                  insights1 =
                    (if timeInRange stats \<ge> 70
                     then insights0 @ [''Excellent glucose control - time in range above 70%'']
                     else if timeInRange stats \<ge> 50
                     then insights0 @
                       [''Good glucose control - consider optimizing to reach 70% time in range'']
                     else insights0 @
                       [''Glucose control needs improvement - focus on reducing time above/below range'']);
                  insights2 =
                    (if num_le (coefficientOfVariation stats) 33
                     then insights1 @ [''Low glucose variability - excellent stability'']
                     else if num_le (coefficientOfVariation stats) 36
                     then insights1 @ [''Moderate glucose variability - room for improvement'']
                     else insights1 @
                       [''High glucose variability - consider strategies to improve stability'']);
                  insights3 =
                    (if gmi stats < 7.0
                     then insights2 @ [''GMI indicates excellent glucose management'']
                     else if gmi stats < 8.0
                     then insights2 @
                       [''GMI indicates good glucose management with room for improvement'']
                     else insights2 @
                       [''GMI suggests glucose management needs significant improvement''])
              in Inr insights3))"

subsection \<open>Configuration and readings as the server builds them\<close>

text \<open>\<^verbatim>\<open>DEFAULT_CONFIG\<close> of \<^verbatim>\<open>src/config.ts\<close>.\<close>

definition DEFAULT_CONFIG :: LibreLinkConfig where
  "DEFAULT_CONFIG = \<lparr>
     credentials = \<lparr>email = [], password = []\<rparr>,
     client = \<lparr>version = ''4.12.0'', region = US\<rparr>,
     cache = \<lparr>enabled = True, ttl_minutes = 5\<rparr>,
     ranges = \<lparr>target_low = 70, target_high = 180\<rparr>\<rparr>"

text \<open>
  \<^verbatim>\<open>mapGlucoseReading\<close> of the client (\<^verbatim>\<open>librelink-client.ts\<close>), on the value, the timestamp
  and the already mapped trend of the upstream reading.
\<close>

definition mapGlucoseReading ::
  "LibreLinkConfig \<Rightarrow> real \<Rightarrow> Date \<Rightarrow> TrendType \<Rightarrow> GlucoseReading" where
  "mapGlucoseReading cfg v t tr =
     (let isHigh = v > target_high (ranges cfg);
          isLow = v < target_low (ranges cfg)
      in \<lparr>value = v, timestamp = t, trend = tr, isHigh = isHigh, isLow = isLow,
           color = (if isHigh then ''red'' else if isLow then ''orange'' else ''green'')\<rparr>)"

subsection \<open>The quantities the specification names\<close>

text \<open>
  Arithmetic mean, population variance (the squared deviations divided by \<open>N\<close>) and
  rounding to two decimal places, as the specification words them; the theorems below
  compare them with what the code computes.
\<close>

definition mean :: "real list \<Rightarrow> real" where
  "mean xs = sum_list xs / real (length xs)"

definition population_variance :: "real list \<Rightarrow> real" where
  "population_variance xs = (\<Sum>x\<leftarrow>xs. (x - mean xs) ^ 2) / real (length xs)"

definition round2 :: "real \<Rightarrow> real" where
  "round2 x = real_of_int \<lfloor>x * 100 + 1 / 2\<rfloor> / 100"



text \<open>
  The lengths of the maximal runs of consecutive readings above \<open>hi\<close>, in order, and the
  number of runs of length six or more.
\<close>

function high_runs :: "real \<Rightarrow> GlucoseReading list \<Rightarrow> nat list" where
  "high_runs hi [] = []"
| "high_runs hi (r # rs) =
     (if value r > hi
      then Suc (length (takeWhile (\<lambda>r. value r > hi) rs)) #
           high_runs hi (dropWhile (\<lambda>r. value r > hi) rs)
      else high_runs hi rs)"
  by pat_completeness auto
termination
  by (relation "measure (\<lambda>(hi, rs). length rs)")
    (auto simp add: length_dropWhile_le le_imp_less_Suc)

definition extended_runs :: "real \<Rightarrow> GlucoseReading list \<Rightarrow> nat" where
  "extended_runs hi readings = length (filter (\<lambda>n. n \<ge> 6) (high_runs hi readings))"

text \<open>
  A spike at index \<open>i\<close> of the window \<open>(prev, curr, next)\<close>, the indices of the spikes of a
  list, and the rise \<open>curr - prev\<close> a spike contributes.
\<close>

definition is_spike :: "GlucoseReading list \<Rightarrow> nat \<Rightarrow> bool" where
  "is_spike readings i \<longleftrightarrow>
     value (readings ! i) > value (readings ! (i - 1)) + 30 \<and>
     value (readings ! i) > value (readings ! (i + 1)) + 15"

definition spike_indices :: "GlucoseReading list \<Rightarrow> nat list" where
  "spike_indices readings = filter (is_spike readings) [1..<length readings - 1]"

definition spike_rise :: "GlucoseReading list \<Rightarrow> nat \<Rightarrow> real" where
  "spike_rise readings i = value (readings ! i) - value (readings ! (i - 1))"

subsection \<open>\<^verbatim>\<open>calculateGlucoseStats\<close> on a store\<close>

text \<open>
  The same method with its effects on the heap written out, for the claim that it changes
  nothing.  The state of a call is the instance (the fields of \<^verbatim>\<open>this\<close>) and a store of
  arrays; an array reference is an index of the store, and a reference to no array of
  readings is the \<^verbatim>\<open>null\<close> that the guard \<^verbatim>\<open>!readings\<close> rejects.  \<^verbatim>\<open>map\<close> and \<^verbatim>\<open>filter\<close>
  allocate the array they return; \<^verbatim>\<open>reduce\<close> and \<^verbatim>\<open>length\<close> read.  The callbacks of
  \<^verbatim>\<open>filter\<close> read \<^verbatim>\<open>this.config\<close> in the state in which they run.
\<close>

datatype array = ReadingArray "GlucoseReading list" | NumberArray "real list"

record state =
  analytics :: GlucoseAnalytics
  store :: "array list"

definition alloc :: "array \<Rightarrow> state \<Rightarrow> nat \<times> state" where
  "alloc a \<sigma> = (length (store \<sigma>), \<sigma>\<lparr>store := store \<sigma> @ [a]\<rparr>)"

definition readings_at :: "state \<Rightarrow> nat \<Rightarrow> GlucoseReading list option" where
  "readings_at \<sigma> p =
     (if p < length (store \<sigma>)
      then (case store \<sigma> ! p of ReadingArray rs \<Rightarrow> Some rs | NumberArray vs \<Rightarrow> None)
      else None)"

definition numbers_at :: "state \<Rightarrow> nat \<Rightarrow> real list option" where
  "numbers_at \<sigma> p =
     (if p < length (store \<sigma>)
      then (case store \<sigma> ! p of ReadingArray rs \<Rightarrow> None | NumberArray vs \<Rightarrow> Some vs)
      else None)"

definition array_length :: "state \<Rightarrow> nat \<Rightarrow> nat" where
  "array_length \<sigma> p =
     (if p < length (store \<sigma>)
      then (case store \<sigma> ! p of ReadingArray rs \<Rightarrow> length rs | NumberArray vs \<Rightarrow> length vs)
      else 0)"

definition array_map_value :: "nat \<Rightarrow> state \<Rightarrow> nat \<times> state" where
  "array_map_value p \<sigma> =
     alloc (NumberArray (map value (case readings_at \<sigma> p of Some rs \<Rightarrow> rs | None \<Rightarrow> []))) \<sigma>"

definition array_filter :: "(GlucoseReading \<Rightarrow> bool) \<Rightarrow> nat \<Rightarrow> state \<Rightarrow> nat \<times> state" where
  "array_filter f p \<sigma> =
     alloc (ReadingArray (filter f (case readings_at \<sigma> p of Some rs \<Rightarrow> rs | None \<Rightarrow> []))) \<sigma>"

definition array_reduce :: "(real \<Rightarrow> real \<Rightarrow> real) \<Rightarrow> real \<Rightarrow> nat \<Rightarrow> state \<Rightarrow> real" where
  "array_reduce f init p \<sigma> =
     foldl f init (case numbers_at \<sigma> p of Some vs \<Rightarrow> vs | None \<Rightarrow> [])"

definition calculateGlucoseStats_store ::
  "nat \<Rightarrow> state \<Rightarrow> (error + GlucoseStats) \<times> state" where
  "calculateGlucoseStats_store readings \<sigma> =
     (if readings_at \<sigma> readings = None \<or> array_length \<sigma> readings = 0
      then (Inl (Error ''No glucose readings provided for analysis''), \<sigma>)
      else
        let (values, \<sigma>1) = array_map_value readings \<sigma>;
            total = array_reduce (\<lambda>sum val. sum + val) 0 values \<sigma>1;
            average = total / real (array_length \<sigma>1 values);
            variance =
              array_reduce (\<lambda>sum val. sum + (val - average) ^ 2) 0 values \<sigma>1 /
                real (array_length \<sigma>1 values);
            standardDeviation = sqrt variance;
            coefficientOfVariation = num_times (js_div standardDeviation average) 100;
            gmi = 3.31 + (0.02392 * average);
            (inRangeArray, \<sigma>2) = array_filter (\<lambda>r.
              value r \<ge> target_low (ranges (config (analytics \<sigma>1))) \<and>
              value r \<le> target_high (ranges (config (analytics \<sigma>1)))) readings \<sigma>1;
            inRange = array_length \<sigma>2 inRangeArray;
            (belowRangeArray, \<sigma>3) = array_filter (\<lambda>r.
              value r < target_low (ranges (config (analytics \<sigma>2)))) readings \<sigma>2;
            belowRange = array_length \<sigma>3 belowRangeArray;
            (aboveRangeArray, \<sigma>4) = array_filter (\<lambda>r.
              value r > target_high (ranges (config (analytics \<sigma>3)))) readings \<sigma>3;
            aboveRange = array_length \<sigma>4 aboveRangeArray;
            timeInRange = (real inRange / real (array_length \<sigma>4 readings)) * 100;
            timeBelowRange = (real belowRange / real (array_length \<sigma>4 readings)) * 100;
            timeAboveRange = (real aboveRange / real (array_length \<sigma>4 readings)) * 100
        in (Inr \<lparr>
          average = Math_round (average * 100) / 100,
          gmi = Math_round (gmi * 100) / 100,
          timeInRange = Math_round (timeInRange * 100) / 100,
          timeBelowRange = Math_round (timeBelowRange * 100) / 100,
          timeAboveRange = Math_round (timeAboveRange * 100) / 100,
          standardDeviation = Math_round (standardDeviation * 100) / 100,
          coefficientOfVariation =
            num_divide (Math_round_num (num_times coefficientOfVariation 100)) 100
        \<rparr>, \<sigma>4))"

section \<open>Properties\<close>

subsection \<open>Auxiliary facts\<close>

lemma foldl_plus_sum_list:
  "foldl (\<lambda>sum val. sum + f val) a xs = a + (\<Sum>x\<leftarrow>xs. f x)" for a :: real
  by (induction xs arbitrary: a) (simp_all add: add.assoc)

lemma range_partition:
  "lo \<le> hi \<Longrightarrow>
   length (filter (\<lambda>r. value r \<ge> lo \<and> value r \<le> hi) rs) +
   length (filter (\<lambda>r. value r < lo) rs) +
   length (filter (\<lambda>r. value r > hi) rs) = length rs"
  by (induction rs) auto

lemma Math_round_bounds: "x - 1 / 2 < Math_round x" "Math_round x \<le> x + 1 / 2"
  unfolding Math_round_def by linarith+

subsection \<open>Time in range\<close>

text \<open>
  Claim C1.  For a non-empty list of readings and a target range with \<open>low < high\<close>, the
  three percentages of the statistics sum to 100 within a tolerance of 0.1: the three
  classes (in range, below, above) partition the readings, so their counts sum to the
  number of readings, and each percentage is rounded by at most 0.005.
\<close>

theorem time_percentages_sum:
  assumes "readings \<noteq> []"
    and "target_low (ranges (config this)) < target_high (ranges (config this))"
  shows "(\<exists>s. calculateGlucoseStats this readings = Inr s \<and>
           \<bar>timeInRange s + timeBelowRange s + timeAboveRange s - 100\<bar> < 1 / 10) \<and>
         length (filter (\<lambda>r. value r \<ge> target_low (ranges (config this)) \<and>
                              value r \<le> target_high (ranges (config this))) readings) +
         length (filter (\<lambda>r. value r < target_low (ranges (config this))) readings) +
         length (filter (\<lambda>r. value r > target_high (ranges (config this))) readings) =
           length readings"
proof -
  define lo where "lo = target_low (ranges (config this))"
  define hi where "hi = target_high (ranges (config this))"
  define n where "n = real (length readings)"
  define a where "a = real (length (filter (\<lambda>r. value r \<ge> lo \<and> value r \<le> hi) readings))"
  define b where "b = real (length (filter (\<lambda>r. value r < lo) readings))"
  define c where "c = real (length (filter (\<lambda>r. value r > hi) readings))"
  have n: "n > 0" using assms(1) by (simp add: n_def)
  have le: "lo \<le> hi"
    using assms(2) by (simp add: lo_def hi_def)
  then have "real (length (filter (\<lambda>r. value r \<ge> lo \<and> value r \<le> hi) readings) +
      length (filter (\<lambda>r. value r < lo) readings) +
      length (filter (\<lambda>r. value r > hi) readings)) = real (length readings)"
    by (simp only: range_partition)
  then have "a + b + c = n"
    by (simp only: a_def b_def c_def n_def of_nat_add)
  then have total: "a / n * 100 * 100 + b / n * 100 * 100 + c / n * 100 * 100 = 10000"
    using n by (simp add: field_simps)
  have "\<bar>Math_round (a / n * 100 * 100) / 100 + Math_round (b / n * 100 * 100) / 100 +
         Math_round (c / n * 100 * 100) / 100 - 100\<bar> < 1 / 10"
    using Math_round_bounds [of "a / n * 100 * 100"] Math_round_bounds [of "b / n * 100 * 100"]
      Math_round_bounds [of "c / n * 100 * 100"] total
    by linarith
  then have "\<exists>s. calculateGlucoseStats this readings = Inr s \<and>
           \<bar>timeInRange s + timeBelowRange s + timeAboveRange s - 100\<bar> < 1 / 10"
    using assms(1)
    unfolding calculateGlucoseStats_def Let_def a_def b_def c_def n_def lo_def hi_def
    by simp
  with range_partition [OF le, of readings] show ?thesis
    unfolding lo_def hi_def by simp
qed

text \<open>The readings 40, 400 and 100 against the default range 70 to 180.\<close>

theorem time_percentages_sum_witness:
  "[mapGlucoseReading DEFAULT_CONFIG 40 0 FLAT, mapGlucoseReading DEFAULT_CONFIG 400 0 FLAT,
    mapGlucoseReading DEFAULT_CONFIG 100 0 FLAT] \<noteq> [] \<and>
   target_low (ranges (config \<lparr>config = DEFAULT_CONFIG\<rparr>)) <
     target_high (ranges (config \<lparr>config = DEFAULT_CONFIG\<rparr>)) \<and>
   (\<exists>s. calculateGlucoseStats \<lparr>config = DEFAULT_CONFIG\<rparr>
      [mapGlucoseReading DEFAULT_CONFIG 40 0 FLAT, mapGlucoseReading DEFAULT_CONFIG 400 0 FLAT,
       mapGlucoseReading DEFAULT_CONFIG 100 0 FLAT] = Inr s \<and>
      timeInRange s = 3333 / 100 \<and> timeBelowRange s = 3333 / 100 \<and>
      timeAboveRange s = 3333 / 100 \<and>
      \<bar>timeInRange s + timeBelowRange s + timeAboveRange s - 100\<bar> < 1 / 10)"
proof -
  have "timeInRange s = 3333 / 100 \<and> timeBelowRange s = 3333 / 100 \<and>
      timeAboveRange s = 3333 / 100"
    if "calculateGlucoseStats \<lparr>config = DEFAULT_CONFIG\<rparr>
      [mapGlucoseReading DEFAULT_CONFIG 40 0 FLAT, mapGlucoseReading DEFAULT_CONFIG 400 0 FLAT,
       mapGlucoseReading DEFAULT_CONFIG 100 0 FLAT] = Inr s" for s
    using that
    by (auto simp add: calculateGlucoseStats_def DEFAULT_CONFIG_def mapGlucoseReading_def
        Math_round_def Let_def)
  then show ?thesis
    using time_percentages_sum [of
        "[mapGlucoseReading DEFAULT_CONFIG 40 0 FLAT, mapGlucoseReading DEFAULT_CONFIG 400 0 FLAT,
          mapGlucoseReading DEFAULT_CONFIG 100 0 FLAT]" "\<lparr>config = DEFAULT_CONFIG\<rparr>"]
    by (auto simp add: DEFAULT_CONFIG_def)
qed

subsection \<open>Empty input\<close>

text \<open>
  Claim C2.  On the empty list of readings both \<open>calculateGlucoseStats\<close> and
  \<open>analyzeTrends\<close> throw their error, whatever the configuration, the time zone and the
  period; neither returns a statistics or trend object.
\<close>

theorem empty_input_fails:
  "calculateGlucoseStats this [] = Inl (Error ''No glucose readings provided for analysis'') \<and>
   analyzeTrends tza this [] period =
     Inl (Error ''No glucose readings provided for trend analysis'')"
  by (simp add: calculateGlucoseStats_def analyzeTrends_def)

subsection \<open>The period of the trend analysis\<close>

text \<open>
  Claim C5.  The period has no influence on the result of \<open>analyzeTrends\<close>: any two periods
  give the same result on the same readings, in every field of the report.
\<close>

theorem period_ignored:
  "analyzeTrends tza this readings p1 = analyzeTrends tza this readings p2"
  by (simp add: analyzeTrends_def)

subsection \<open>Mean, standard deviation and GMI\<close>

lemma foldl_plus: "foldl (\<lambda>sum val. sum + val) a xs = a + sum_list xs" for a :: real
  by (induction xs arbitrary: a) (simp_all add: add.assoc)

lemma mapGlucoseReading_sel [simp]:
  "value (mapGlucoseReading cfg v t tr) = v"
  "timestamp (mapGlucoseReading cfg v t tr) = t"
  by (simp_all add: mapGlucoseReading_def Let_def)




subsection \<open>Coefficient of variation\<close>

lemma population_variance_nonneg: "population_variance xs \<ge> 0"
  unfolding population_variance_def
  by (intro divide_nonneg_nonneg sum_list_nonneg) auto

lemma cv_value:
  "sd \<ge> 0 \<Longrightarrow>
   num_divide (Math_round_num (num_times (num_times (js_div sd \<mu>) 100) 100)) 100 =
     (if \<mu> \<noteq> 0 then Finite (round2 (sd / \<mu> * 100))
      else if sd = 0 then NaN else PosInfinity)"
  by (simp add: js_div_def round2_def Math_round_def)

lemma cv_computed:
  assumes "readings \<noteq> []"
  shows "\<exists>s. calculateGlucoseStats this readings = Inr s \<and>
     coefficientOfVariation s =
       num_divide (Math_round_num (num_times (num_times
         (js_div (sqrt (population_variance (map value readings)))
            (mean (map value readings))) 100) 100)) 100"
  using assms
  unfolding calculateGlucoseStats_def Let_def mean_def population_variance_def
  by (simp add: foldl_plus foldl_plus_sum_list)




subsection \<open>Dawn phenomenon\<close>







subsection \<open>Extended hyperglycemic periods\<close>

lemma extended_runs_split:
  "extended_runs hi rs =
     (if length (takeWhile (\<lambda>r. value r > hi) rs) \<ge> 6 then 1 else 0) +
     extended_runs hi (dropWhile (\<lambda>r. value r > hi) rs)"
  by (cases rs) (simp_all add: extended_runs_def)

lemma hyper_loop_runs:
  "(case foldl (hyper_step this) (p, c) rs of
      (periods, consecutiveHigh) \<Rightarrow> if consecutiveHigh \<ge> 6 then periods + 1 else periods) =
   p + (if c + length (takeWhile (\<lambda>r. value r > target_high (ranges (config this))) rs) \<ge> 6
        then 1 else 0) +
   extended_runs (target_high (ranges (config this)))
     (dropWhile (\<lambda>r. value r > target_high (ranges (config this))) rs)"
proof (induction rs arbitrary: p c)
  case Nil
  then show ?case by (simp add: extended_runs_def)
next
  case (Cons r rs)
  show ?case
  proof (cases "value r > target_high (ranges (config this))")
    case True
    then show ?thesis
      using Cons.IH [of p "c + 1"] by (simp add: hyper_step_def)
  next
    case False
    then show ?thesis
      using Cons.IH [of "if c \<ge> 6 then p + 1 else p" 0]
        extended_runs_split [of "target_high (ranges (config this))" rs]
      by (simp add: hyper_step_def extended_runs_def)
  qed
qed

text \<open>
  Claim C7.  The number of hyperglycemic periods is the number of maximal runs of
  consecutive readings above the target high whose length is at least six; a run that
  reaches the end of the list counts as any other.
\<close>

theorem hyperglycemic_periods_are_long_runs:
  "detectHyperglycemicPeriods this readings =
     length (filter (\<lambda>n. n \<ge> 6) (high_runs (target_high (ranges (config this))) readings))"
  using hyper_loop_runs [of this 0 0 readings]
    extended_runs_split [of "target_high (ranges (config this))" readings]
  by (simp add: detectHyperglycemicPeriods_def extended_runs_def)

text \<open>Six readings of 200 followed by one of 100 are one period; five readings of 200 are none.\<close>

theorem hyperglycemic_periods_are_long_runs_witness:
  "detectHyperglycemicPeriods \<lparr>config = DEFAULT_CONFIG\<rparr>
     (replicate 6 (mapGlucoseReading DEFAULT_CONFIG 200 0 FLAT) @
      [mapGlucoseReading DEFAULT_CONFIG 100 0 FLAT]) = 1 \<and>
   detectHyperglycemicPeriods \<lparr>config = DEFAULT_CONFIG\<rparr>
     (replicate 5 (mapGlucoseReading DEFAULT_CONFIG 200 0 FLAT)) = 0"
  using
    hyperglycemic_periods_are_long_runs [of "\<lparr>config = DEFAULT_CONFIG\<rparr>"
      "replicate 6 (mapGlucoseReading DEFAULT_CONFIG 200 0 FLAT) @
       [mapGlucoseReading DEFAULT_CONFIG 100 0 FLAT]"]
    hyperglycemic_periods_are_long_runs [of "\<lparr>config = DEFAULT_CONFIG\<rparr>"
      "replicate 5 (mapGlucoseReading DEFAULT_CONFIG 200 0 FLAT)"]
  by (simp add: DEFAULT_CONFIG_def numeral_eq_Suc)

subsection \<open>Meal response\<close>

lemma meal_loop_spikes:
  "meal_loop rs i (t, c) =
     (t + (\<Sum>j\<leftarrow>filter (is_spike rs) [i..<length rs - 1]. spike_rise rs j),
      c + length (filter (is_spike rs) [i..<length rs - 1]))"
proof (induction rs i "(t, c)" arbitrary: t c rule: meal_loop.induct)
  case (1 readings i totalSpikes spikeCount)
  let ?cond = "value (readings ! i) > value (readings ! (i - 1)) + 30 \<and>
               value (readings ! i) > value (readings ! (i + 1)) + 15"
  let ?rise = "value (readings ! i) - value (readings ! (i - 1))"
  let ?rest = "filter (is_spike readings) [i + 1..<length readings - 1]"
  have rise: "spike_rise readings i = ?rise"
    by (simp add: spike_rise_def)
  show ?case
  proof (cases "int i < int (length readings) - 1")
    case True
    then have "i < length readings - 1" by linarith
    then have upt: "[i..<length readings - 1] = i # [i + 1..<length readings - 1]"
      by (simp add: upt_conv_Cons)
    show ?thesis
    proof (cases "is_spike readings i")
      case spike: True
      then have cond: ?cond by (simp add: is_spike_def)
      have "meal_loop readings i (totalSpikes, spikeCount) =
          meal_loop readings (i + 1) (totalSpikes + ?rise, spikeCount + 1)"
        using True cond by (subst meal_loop.simps) (simp add: Let_def)
      also have "\<dots> =
          (totalSpikes + ?rise + (\<Sum>j\<leftarrow>?rest. spike_rise readings j),
           spikeCount + 1 + length ?rest)"
        by (rule "1.hyps"(1) [OF True refl refl refl cond])
      also have "\<dots> =
          (totalSpikes +
             (\<Sum>j\<leftarrow>filter (is_spike readings) [i..<length readings - 1].
                spike_rise readings j),
           spikeCount + length (filter (is_spike readings) [i..<length readings - 1]))"
        unfolding upt using spike by (simp add: rise)
      finally show ?thesis .
    next
      case no_spike: False
      then have cond: "\<not> ?cond" by (simp add: is_spike_def)
      have "meal_loop readings i (totalSpikes, spikeCount) =
          meal_loop readings (i + 1) (totalSpikes, spikeCount)"
        using True cond by (subst meal_loop.simps) (auto simp add: Let_def)
      also have "\<dots> =
          (totalSpikes + (\<Sum>j\<leftarrow>?rest. spike_rise readings j), spikeCount + length ?rest)"
        by (rule "1.hyps"(2) [OF True refl refl refl cond])
      also have "\<dots> =
          (totalSpikes +
             (\<Sum>j\<leftarrow>filter (is_spike readings) [i..<length readings - 1].
                spike_rise readings j),
           spikeCount + length (filter (is_spike readings) [i..<length readings - 1]))"
        unfolding upt using no_spike by simp
      finally show ?thesis .
    qed
  next
    case False
    then have "[i..<length readings - 1] = []" by simp
    with False show ?thesis
      by (subst meal_loop.simps) simp
  qed
qed

lemma spike_rise_large: "is_spike rs j \<Longrightarrow> spike_rise rs j > 30"
  by (simp add: is_spike_def spike_rise_def)

lemma sum_list_spikes_large:
  "\<forall>j \<in> set js. is_spike rs j \<Longrightarrow> js \<noteq> [] \<Longrightarrow>
   (\<Sum>j\<leftarrow>js. spike_rise rs j) > 30 * real (length js)"
proof (induction js)
  case Nil
  then show ?case by simp
next
  case (Cons j js)
  then have j: "spike_rise rs j > 30" by (simp add: spike_rise_large)
  show ?case
  proof (cases "js = []")
    case True
    with j show ?thesis by simp
  next
    case False
    with Cons have "(\<Sum>j\<leftarrow>js. spike_rise rs j) > 30 * real (length js)" by simp
    with j show ?thesis by (simp add: algebra_simps)
  qed
qed

lemma calculateMealResponse_spikes:
  "calculateMealResponse readings =
     (if spike_indices readings = [] then 0
      else mean (map (spike_rise readings) (spike_indices readings)))"
  by (simp add: calculateMealResponse_def meal_loop_spikes spike_indices_def mean_def)

lemma meal_response_zero_or_large:
  "(spike_indices readings = [] \<and> calculateMealResponse readings = 0) \<or>
   (spike_indices readings \<noteq> [] \<and> calculateMealResponse readings > 30)"
proof (cases "spike_indices readings = []")
  case True
  then show ?thesis by (simp add: calculateMealResponse_spikes)
next
  case False
  have "\<forall>j \<in> set (spike_indices readings). is_spike readings j"
    by (simp add: spike_indices_def)
  from sum_list_spikes_large [OF this False]
  have "mean (map (spike_rise readings) (spike_indices readings)) > 30"
    using False by (simp add: mean_def field_simps)
  with False show ?thesis by (simp add: calculateMealResponse_spikes)
qed


lemma good_control_not_count:
  "xs @ '' hypoglycemic episode(s) detected'' \<noteq> ''Good postprandial glucose control''"
  "xs @ '' extended hyperglycemic period(s) detected'' \<noteq> ''Good postprandial glucose control''"
proof -
  have "last (xs @ '' hypoglycemic episode(s) detected'') \<noteq>
      last ''Good postprandial glucose control''"
    by simp
  then show "xs @ '' hypoglycemic episode(s) detected'' \<noteq> ''Good postprandial glucose control''"
    by metis
  have "last (xs @ '' extended hyperglycemic period(s) detected'') \<noteq>
      last ''Good postprandial glucose control''"
    by simp
  then show "xs @ '' extended hyperglycemic period(s) detected'' \<noteq>
      ''Good postprandial glucose control''"
    by metis
qed

lemma good_control_pattern:
  assumes "readings \<noteq> []"
  shows "\<exists>t. analyzeTrends tza this readings period = Inr t \<and>
     (''Good postprandial glucose control'' \<in> set (patterns t) \<longleftrightarrow>
        calculateMealResponse readings < 20)"
  using assms
  by (simp add: analyzeTrends_def Let_def good_control_not_count)

text \<open>
  Claim C10.  The meal response that \<open>analyzeTrends\<close> computes and tests is zero or larger
  than 30: it is zero when the list has no spike and the mean of the rises of the spikes
  otherwise, each of them larger than 30.  So it is below 20 only when it is zero, and the
  report of a non-empty list has the pattern of good postprandial control exactly when no
  spike was found.  (The field of the report is this value rounded to two decimal places.)
\<close>

theorem meal_response_zero_or_above_30:
  "(calculateMealResponse readings = 0 \<or> calculateMealResponse readings > 30) \<and>
   calculateMealResponse readings =
     (if spike_indices readings = [] then 0
      else mean (map (spike_rise readings) (spike_indices readings))) \<and>
   \<not> (0 < calculateMealResponse readings \<and> calculateMealResponse readings < 20) \<and>
   (readings \<noteq> [] \<longrightarrow>
     (\<exists>t. analyzeTrends tza this readings period = Inr t \<and>
        (''Good postprandial glucose control'' \<in> set (patterns t) \<longleftrightarrow>
           spike_indices readings = [])))"
proof -
  have "calculateMealResponse readings < 20 \<longleftrightarrow> spike_indices readings = []"
    using meal_response_zero_or_large [of readings] by auto
  moreover have "calculateMealResponse readings =
     (if spike_indices readings = [] then 0
      else mean (map (spike_rise readings) (spike_indices readings)))"
    by (rule calculateMealResponse_spikes)
  ultimately show ?thesis
    using meal_response_zero_or_large [of readings]
      good_control_pattern [of readings tza this period]
    by auto
qed

text \<open>The readings 100, 140, 100: one spike, at index 1, of rise 40.\<close>

theorem meal_response_zero_or_above_30_witness:
  "[mapGlucoseReading DEFAULT_CONFIG 100 0 FLAT, mapGlucoseReading DEFAULT_CONFIG 140 900000 FLAT,
    mapGlucoseReading DEFAULT_CONFIG 100 1800000 FLAT] \<noteq> [] \<and>
   spike_indices [mapGlucoseReading DEFAULT_CONFIG 100 0 FLAT,
     mapGlucoseReading DEFAULT_CONFIG 140 900000 FLAT,
     mapGlucoseReading DEFAULT_CONFIG 100 1800000 FLAT] = [1] \<and>
   calculateMealResponse [mapGlucoseReading DEFAULT_CONFIG 100 0 FLAT,
     mapGlucoseReading DEFAULT_CONFIG 140 900000 FLAT,
     mapGlucoseReading DEFAULT_CONFIG 100 1800000 FLAT] = 40 \<and>
   (\<exists>t. analyzeTrends (\<lambda>t. 0) \<lparr>config = DEFAULT_CONFIG\<rparr>
      [mapGlucoseReading DEFAULT_CONFIG 100 0 FLAT, mapGlucoseReading DEFAULT_CONFIG 140 900000 FLAT,
       mapGlucoseReading DEFAULT_CONFIG 100 1800000 FLAT] Weekly = Inr t \<and>
      ''Good postprandial glucose control'' \<notin> set (patterns t))"
proof -
  have spikes: "spike_indices [mapGlucoseReading DEFAULT_CONFIG 100 0 FLAT,
     mapGlucoseReading DEFAULT_CONFIG 140 900000 FLAT,
     mapGlucoseReading DEFAULT_CONFIG 100 1800000 FLAT] = [1]"
    by (simp add: spike_indices_def is_spike_def)
  then have "calculateMealResponse [mapGlucoseReading DEFAULT_CONFIG 100 0 FLAT,
     mapGlucoseReading DEFAULT_CONFIG 140 900000 FLAT,
     mapGlucoseReading DEFAULT_CONFIG 100 1800000 FLAT] = 40"
    by (simp add: calculateMealResponse_spikes mean_def spike_rise_def)
  with spikes show ?thesis
    using meal_response_zero_or_above_30 [of
        "[mapGlucoseReading DEFAULT_CONFIG 100 0 FLAT,
          mapGlucoseReading DEFAULT_CONFIG 140 900000 FLAT,
          mapGlucoseReading DEFAULT_CONFIG 100 1800000 FLAT]"
        "\<lambda>t. 0" "\<lparr>config = DEFAULT_CONFIG\<rparr>" Weekly]
    by simp
qed

subsection \<open>Insights\<close>

lemma cv_not_NegInfinity:
  assumes "calculateGlucoseStats this readings = Inr s"
  shows "coefficientOfVariation s \<noteq> NegInfinity"
proof -
  have ne: "readings \<noteq> []"
    using assms by (auto simp add: calculateGlucoseStats_def)
  have "sqrt (population_variance (map value readings)) \<ge> 0"
    by (simp add: population_variance_nonneg)
  from cv_value [OF this, of "mean (map value readings)"] cv_computed [OF ne, of this] assms
  show ?thesis
    by (auto split: if_splits)
qed

lemma analyzeTrends_returns:
  "readings \<noteq> [] \<Longrightarrow> \<exists>t. analyzeTrends tza this readings period = Inr t"
  by (simp add: analyzeTrends_def Let_def)

lemma calculateGlucoseStats_returns:
  "readings \<noteq> [] \<Longrightarrow> \<exists>s. calculateGlucoseStats this readings = Inr s"
  by (simp add: calculateGlucoseStats_def Let_def)

text \<open>
  Claim C8.  For a non-empty list \<open>generateInsights\<close> returns three sentences, in the order
  time in range, variability, GMI, chosen from the statistics of the list: time in range
  at least 70, at least 50, or less; coefficient of variation at most 33, at most 36, or
  more (a coefficient that is not finite counts as more); GMI below 7, below 8, or not.
\<close>

theorem insights_three_sentences:
  assumes "readings \<noteq> []"
  shows "\<exists>s. calculateGlucoseStats this readings = Inr s \<and>
     generateInsights tza this readings = Inr
       [if timeInRange s \<ge> 70 then ''Excellent glucose control - time in range above 70%''
        else if timeInRange s \<ge> 50
        then ''Good glucose control - consider optimizing to reach 70% time in range''
        else ''Glucose control needs improvement - focus on reducing time above/below range'',
        case coefficientOfVariation s of
          Finite c \<Rightarrow>
            if c \<le> 33 then ''Low glucose variability - excellent stability''
            else if c \<le> 36 then ''Moderate glucose variability - room for improvement''
            else ''High glucose variability - consider strategies to improve stability''
        | _ \<Rightarrow> ''High glucose variability - consider strategies to improve stability'',
        if gmi s < 7 then ''GMI indicates excellent glucose management''
        else if gmi s < 8
        then ''GMI indicates good glucose management with room for improvement''
        else ''GMI suggests glucose management needs significant improvement'']"
proof -
  from calculateGlucoseStats_returns [OF assms]
  obtain s where s: "calculateGlucoseStats this readings = Inr s" by blast
  from analyzeTrends_returns [OF assms]
  obtain t where t: "analyzeTrends tza this readings Weekly = Inr t" by blast
  have "coefficientOfVariation s \<noteq> NegInfinity"
    using s by (rule cv_not_NegInfinity)
  then show ?thesis
    unfolding generateInsights_def s t
    by (cases "coefficientOfVariation s") (simp_all add: Let_def)
qed

text \<open>The readings 100 and 102: all in range, coefficient 0.99, GMI 5.73.\<close>

theorem insights_three_sentences_witness:
  "[mapGlucoseReading DEFAULT_CONFIG 100 0 FLAT, mapGlucoseReading DEFAULT_CONFIG 102 900000 FLAT] \<noteq> [] \<and>
   generateInsights (\<lambda>t. 0) \<lparr>config = DEFAULT_CONFIG\<rparr>
     [mapGlucoseReading DEFAULT_CONFIG 100 0 FLAT, mapGlucoseReading DEFAULT_CONFIG 102 900000 FLAT] =
     Inr [''Excellent glucose control - time in range above 70%'',
          ''Low glucose variability - excellent stability'',
          ''GMI indicates excellent glucose management'']"
proof -
  have "calculateGlucoseStats \<lparr>config = DEFAULT_CONFIG\<rparr>
     [mapGlucoseReading DEFAULT_CONFIG 100 0 FLAT, mapGlucoseReading DEFAULT_CONFIG 102 900000 FLAT] =
     Inr \<lparr>average = 101, gmi = 573 / 100, timeInRange = 100, timeBelowRange = 0,
          timeAboveRange = 0, standardDeviation = 1, coefficientOfVariation = Finite (99 / 100)\<rparr>"
    by (simp add: calculateGlucoseStats_def DEFAULT_CONFIG_def Math_round_def js_div_def Let_def)
  then show ?thesis
    using insights_three_sentences [of
        "[mapGlucoseReading DEFAULT_CONFIG 100 0 FLAT,
          mapGlucoseReading DEFAULT_CONFIG 102 900000 FLAT]"
        "\<lparr>config = DEFAULT_CONFIG\<rparr>" "\<lambda>t. 0"]
    by simp
qed

subsection \<open>Repeated calls\<close>

lemma store_call:
  assumes "readings_at \<sigma> p = Some rs"
  shows "calculateGlucoseStats_store p \<sigma> =
     (calculateGlucoseStats (analytics \<sigma>) rs,
      if rs = [] then \<sigma>
      else \<sigma>\<lparr>store := store \<sigma> @
        [NumberArray (map value rs),
         ReadingArray (filter (\<lambda>r.
            value r \<ge> target_low (ranges (config (analytics \<sigma>))) \<and>
            value r \<le> target_high (ranges (config (analytics \<sigma>)))) rs),
         ReadingArray (filter (\<lambda>r. value r < target_low (ranges (config (analytics \<sigma>)))) rs),
         ReadingArray (filter (\<lambda>r. value r > target_high (ranges (config (analytics \<sigma>)))) rs)]\<rparr>)"
proof -
  from assms have p: "p < length (store \<sigma>)" "store \<sigma> ! p = ReadingArray rs"
    by (auto simp add: readings_at_def split: if_splits array.splits)
  show ?thesis
  proof (cases "rs = []")
    case True
    with assms p show ?thesis
      by (simp add: calculateGlucoseStats_store_def calculateGlucoseStats_def array_length_def)
  next
    case False
    with assms p show ?thesis
      by (simp add: calculateGlucoseStats_store_def calculateGlucoseStats_def array_length_def
          array_map_value_def array_filter_def array_reduce_def alloc_def readings_at_def
          numbers_at_def Let_def nth_append)
  qed
qed

lemma store_call_null:
  assumes "readings_at \<sigma> p = None"
  shows "calculateGlucoseStats_store p \<sigma> =
     (Inl (Error ''No glucose readings provided for analysis''), \<sigma>)"
  using assms by (simp add: calculateGlucoseStats_store_def)

lemma readings_at_extended:
  "readings_at \<sigma> p = Some rs \<Longrightarrow> readings_at (\<sigma>\<lparr>store := store \<sigma> @ new\<rparr>) p = Some rs"
  by (auto simp add: readings_at_def nth_append split: if_splits)

text \<open>
  Claim C9.  A call of \<open>calculateGlucoseStats\<close> leaves the instance and every array that
  existed before the call as they were, the array of readings among them, and a second
  call on the same reference returns the output of the first: the output is a function of
  the configuration and the readings alone.
\<close>

theorem calculateGlucoseStats_repeatable:
  assumes "calculateGlucoseStats_store readings \<sigma> = (out, \<sigma>')"
  shows "analytics \<sigma>' = analytics \<sigma> \<and>
     take (length (store \<sigma>)) (store \<sigma>') = store \<sigma> \<and>
     readings_at \<sigma>' readings = readings_at \<sigma> readings \<and>
     fst (calculateGlucoseStats_store readings \<sigma>') = out \<and>
     out = (case readings_at \<sigma> readings of
              None \<Rightarrow> Inl (Error ''No glucose readings provided for analysis'')
            | Some rs \<Rightarrow> calculateGlucoseStats (analytics \<sigma>) rs)"
proof (cases "readings_at \<sigma> readings")
  case None
  with assms store_call_null [OF None] show ?thesis by simp
next
  case (Some rs)
  from assms store_call [OF Some]
  have out: "out = calculateGlucoseStats (analytics \<sigma>) rs"
    and \<sigma>': "\<sigma>' = (if rs = [] then \<sigma>
      else \<sigma>\<lparr>store := store \<sigma> @
        [NumberArray (map value rs),
         ReadingArray (filter (\<lambda>r.
            value r \<ge> target_low (ranges (config (analytics \<sigma>))) \<and>
            value r \<le> target_high (ranges (config (analytics \<sigma>)))) rs),
         ReadingArray (filter (\<lambda>r. value r < target_low (ranges (config (analytics \<sigma>)))) rs),
         ReadingArray (filter (\<lambda>r. value r > target_high (ranges (config (analytics \<sigma>)))) rs)]\<rparr>)"
    by simp_all
  have same: "analytics \<sigma>' = analytics \<sigma>"
    by (simp add: \<sigma>')
  have kept: "take (length (store \<sigma>)) (store \<sigma>') = store \<sigma>"
    by (simp add: \<sigma>')
  have still: "readings_at \<sigma>' readings = Some rs"
    using Some by (simp add: \<sigma>' readings_at_extended)
  have "fst (calculateGlucoseStats_store readings \<sigma>') = calculateGlucoseStats (analytics \<sigma>') rs"
    by (simp add: store_call [OF still])
  with same kept still out Some show ?thesis by simp
qed

text \<open>A store that holds one array, of the readings 100 and 102.\<close>

theorem calculateGlucoseStats_repeatable_witness:
  "\<exists>out \<sigma>'.
     calculateGlucoseStats_store 0
       \<lparr>analytics = \<lparr>config = DEFAULT_CONFIG\<rparr>,
        store = [ReadingArray [mapGlucoseReading DEFAULT_CONFIG 100 0 FLAT,
                               mapGlucoseReading DEFAULT_CONFIG 102 900000 FLAT]]\<rparr> = (out, \<sigma>') \<and>
     out = Inr \<lparr>average = 101, gmi = 573 / 100, timeInRange = 100, timeBelowRange = 0,
          timeAboveRange = 0, standardDeviation = 1, coefficientOfVariation = Finite (99 / 100)\<rparr> \<and>
     analytics \<sigma>' = \<lparr>config = DEFAULT_CONFIG\<rparr> \<and>
     take 1 (store \<sigma>') = [ReadingArray [mapGlucoseReading DEFAULT_CONFIG 100 0 FLAT,
                               mapGlucoseReading DEFAULT_CONFIG 102 900000 FLAT]] \<and>
     fst (calculateGlucoseStats_store 0 \<sigma>') = out"
proof -
  let ?\<sigma> = "\<lparr>analytics = \<lparr>config = DEFAULT_CONFIG\<rparr>,
        store = [ReadingArray [mapGlucoseReading DEFAULT_CONFIG 100 0 FLAT,
                               mapGlucoseReading DEFAULT_CONFIG 102 900000 FLAT]]\<rparr>"
  obtain out \<sigma>' where call: "calculateGlucoseStats_store 0 ?\<sigma> = (out, \<sigma>')"
    by (cases "calculateGlucoseStats_store 0 ?\<sigma>")
  have "calculateGlucoseStats \<lparr>config = DEFAULT_CONFIG\<rparr>
     [mapGlucoseReading DEFAULT_CONFIG 100 0 FLAT, mapGlucoseReading DEFAULT_CONFIG 102 900000 FLAT] =
     Inr \<lparr>average = 101, gmi = 573 / 100, timeInRange = 100, timeBelowRange = 0,
          timeAboveRange = 0, standardDeviation = 1, coefficientOfVariation = Finite (99 / 100)\<rparr>"
    by (simp add: calculateGlucoseStats_def DEFAULT_CONFIG_def Math_round_def js_div_def Let_def)
  with calculateGlucoseStats_repeatable [OF call] call show ?thesis
    by (simp add: readings_at_def)
qed

end
